theory Spec2Isabelle
  imports Complex_Main "HOL-Library.AList"
begin

section \<open>Python values\<close>

text \<open>
  A Python \<open>str\<close> is a sequence of Unicode code points: \<open>len\<close> counts them,
  slicing cuts between them and \<open>ord\<close> reads one. A lone surrogate is a code point of
  its own in the range U+D800 to U+DFFF.
\<close>

type_synonym pystr = "nat list"

definition ascii :: "string \<Rightarrow> pystr" where
  "ascii s = map of_char s"

text \<open>
  The values that \<open>json.loads\<close> and \<open>yaml.safe_load\<close> produce. A \<open>dict\<close> is an
  association list in insertion order; the first pair of a key is its entry.
\<close>

datatype pyval =
    PNone
  | PBool bool
  | PInt int
  | PFloat rat
  | PStr pystr
  | PList "pyval list"
  | PDict "(pystr \<times> pyval) list"

text \<open>Exceptions carry their class and the text that \<open>str(e)\<close> gives.\<close>

datatype exn_class =
    AttributeError | TypeError | ValueError | RuntimeError | KeyError | IndexError
  | JSONDecodeError | OtherError

datatype exn = Exn exn_class pystr

fun str_exn :: "exn \<Rightarrow> pystr" where
  "str_exn (Exn c m) = m"

text \<open>\<open>d.get(key, default)\<close> on a dict.\<close>

definition dict_get :: "(pystr \<times> pyval) list \<Rightarrow> pystr \<Rightarrow> pyval \<Rightarrow> pyval" where
  "dict_get d k dflt = (case map_of d k of Some v \<Rightarrow> v | None \<Rightarrow> dflt)"

section \<open>utils.py\<close>

text \<open>
  What the interpreter and its libraries supply: the platform, the cp932 codec used on
  win32 (\<open>None\<close> when the round trip raises), the built-in \<open>str\<close> on values that
  are not strings, the message the interpreter gives an exception of its own, from the
  exception's class and the value the operation was applied to, \<open>json.loads\<close>
  (\<open>None\<close> when it raises its decode error), and the search for a fenced
  \<open>json\<close> block, \<open>re.search\<close> with the pattern of \<open>generate_task_list\<close>, which
  gives the block's interior when there is one.
\<close>

record platform =
  win32 :: bool
  cp932_roundtrip :: "pystr \<Rightarrow> pystr option"
  py_str :: "pyval \<Rightarrow> pystr"
  error_text :: "exn_class \<Rightarrow> pyval \<Rightarrow> pystr"
  json_loads :: "pystr \<Rightarrow> pyval option"
  search_json_fence :: "pystr \<Rightarrow> pystr option"

definition builtin_error :: "platform \<Rightarrow> exn_class \<Rightarrow> pyval \<Rightarrow> exn" where
  "builtin_error P c v = Exn c (error_text P c v)"

definition is_surrogate :: "nat \<Rightarrow> bool" where
  "is_surrogate c \<longleftrightarrow> 0xD800 \<le> c \<and> c \<le> 0xDFFF"

definition question_mark :: nat where
  "question_mark = 63"

text \<open>
  \<open>safe_str\<close> on a text (the callers pass \<open>str\<close> values, or apply \<open>str\<close> first).
  On win32 the text goes through cp932 with replacement; if that raises, or on any other
  platform, every surrogate becomes \<open>?\<close>.
\<close>

definition replace_surrogates :: "pystr \<Rightarrow> pystr" where
  "replace_surrogates text = map (\<lambda>char. if \<not> is_surrogate char then char else question_mark) text"

definition safe_str :: "platform \<Rightarrow> pystr \<Rightarrow> pystr" where
  "safe_str P text =
     (if win32 P then
        (case cp932_roundtrip P text of
           Some t \<Rightarrow> t
         | None \<Rightarrow> replace_surrogates text)
      else replace_surrogates text)"

section \<open>connection_manager.py\<close>

text \<open>
  A tool as \<open>list_tools\<close> describes it; \<open>None\<close> stands for an attribute the object
  does not have. A registry entry is what \<open>_collect_tools_info\<close> stores under the
  tool's name.
\<close>

record tool_descriptor =
  tool_name :: pystr
  inputSchema :: "pyval option"
  tool_description :: "pyval option"

record tool_info =
  server :: pystr
  schema :: pyval
  description :: pyval

text \<open>
  The result of a remote call: an object with a \<open>content\<close> list, whose items may have
  a \<open>text\<close> attribute, or any other object, kept as the text \<open>str\<close> gives for it.
\<close>

datatype content_item = WithText pyval | NoText

datatype call_result = CallToolResult "content_item list" | PlainResult pystr

text \<open>
  The transport to the tool servers. \<open>connect\<close> takes the server's name, command and
  arguments and returns the exception, if any. \<open>remote_call\<close> also takes the number of
  remote calls made before, so a server may answer the same call differently over time.
\<close>

record transport =
  connect :: "pystr \<Rightarrow> pystr \<Rightarrow> pystr list \<Rightarrow> exn option"
  list_tools :: "pystr \<Rightarrow> exn + tool_descriptor list"
  remote_call :: "nat \<Rightarrow> pystr \<Rightarrow> pystr \<Rightarrow> pyval \<Rightarrow> exn + call_result"

text \<open>
  The manager's state. \<open>clients\<close> holds the names of the connected servers, in the
  order of connection (the keys of the \<open>clients\<close> dict). \<open>invocations\<close> is not in
  the source: it records every remote call made, as server, tool and arguments.
\<close>

record connection_manager =
  servers :: "(pystr \<times> pystr list) list"
  clients :: "pystr list"
  tools_info :: "(pystr \<times> tool_info) list"
  initialized :: bool
  invocations :: "(pystr \<times> pystr \<times> pyval) list"

definition new_connection_manager :: "(pystr \<times> pystr list) list \<Rightarrow> connection_manager" where
  "new_connection_manager srv =
     \<lparr>servers = srv, clients = [], tools_info = [], initialized = False, invocations = []\<rparr>"

definition add_key :: "pystr \<Rightarrow> pystr list \<Rightarrow> pystr list" where
  "add_key k ks = (if k \<in> set ks then ks else ks @ [k])"

text \<open>
  \<open>_connect_all_servers\<close>: one attempt per server; an attempt that raises (also on an
  empty path, where \<open>path[0]\<close> raises) is logged and skipped.
\<close>

fun connect_servers :: "transport \<Rightarrow> (pystr \<times> pystr list) list \<Rightarrow> pystr list \<Rightarrow> pystr list" where
  "connect_servers T [] cs = cs"
| "connect_servers T ((server_name, path) # rest) cs =
     (case path of
        [] \<Rightarrow> connect_servers T rest cs
      | command # args \<Rightarrow>
          (case connect T server_name command args of
             None \<Rightarrow> connect_servers T rest (add_key server_name cs)
           | Some e \<Rightarrow> connect_servers T rest cs))"

definition connect_all_servers :: "transport \<Rightarrow> connection_manager \<Rightarrow> connection_manager" where
  "connect_all_servers T cm = cm\<lparr>clients := connect_servers T (servers cm) (clients cm)\<rparr>"

text \<open>\<open>_collect_tools_info\<close>: the tools of every connected server, later entries
  overwriting earlier ones of the same name; a server whose listing raises adds nothing.\<close>

definition make_tool_info :: "pystr \<Rightarrow> tool_descriptor \<Rightarrow> tool_info" where
  "make_tool_info server_name tool =
     \<lparr>server = server_name,
      schema = (case inputSchema tool of Some s \<Rightarrow> s | None \<Rightarrow> PDict []),
      description = (case tool_description tool of Some d \<Rightarrow> d | None \<Rightarrow> PStr [])\<rparr>"

fun store_tools :: "pystr \<Rightarrow> tool_descriptor list \<Rightarrow> (pystr \<times> tool_info) list \<Rightarrow> (pystr \<times> tool_info) list" where
  "store_tools server_name [] ti = ti"
| "store_tools server_name (tool # rest) ti =
     store_tools server_name rest (AList.update (tool_name tool) (make_tool_info server_name tool) ti)"

fun collect_tools :: "transport \<Rightarrow> pystr list \<Rightarrow> (pystr \<times> tool_info) list \<Rightarrow> (pystr \<times> tool_info) list" where
  "collect_tools T [] ti = ti"
| "collect_tools T (server_name # rest) ti =
     (case list_tools T server_name of
        Inr tools \<Rightarrow> collect_tools T rest (store_tools server_name tools ti)
      | Inl e \<Rightarrow> collect_tools T rest ti)"

definition collect_tools_info :: "transport \<Rightarrow> connection_manager \<Rightarrow> connection_manager" where
  "collect_tools_info T cm = cm\<lparr>tools_info := collect_tools T (clients cm) (tools_info cm)\<rparr>"

definition initialize :: "transport \<Rightarrow> connection_manager \<Rightarrow> connection_manager" where
  "initialize T cm =
     (if initialized cm then cm
      else (collect_tools_info T (connect_all_servers T cm))\<lparr>initialized := True\<rparr>)"

text \<open>\<open>close\<close>: every client is closed, a failure only logged; then the clients are
  cleared. The registry is not touched.\<close>

definition close :: "connection_manager \<Rightarrow> connection_manager" where
  "close cm = cm\<lparr>clients := [], initialized := False\<rparr>"


definition get_available_tools :: "connection_manager \<Rightarrow> pystr list" where
  "get_available_tools cm = map fst (tools_info cm)"

text \<open>The built-in \<open>str\<close>, as an f-string applies it.\<close>

definition str_val :: "platform \<Rightarrow> pyval \<Rightarrow> pystr" where
  "str_val P v = (case v of PStr s \<Rightarrow> s | _ \<Rightarrow> py_str P v)"

definition unknown_tool_prefix :: pystr where
  "unknown_tool_prefix = [26410, 30693, 12398, 12484, 12540, 12523, 58, 32]"

definition server_prefix :: pystr where
  "server_prefix = [12469, 12540, 12496, 12540, 32, 39]"

definition not_connected_suffix :: pystr where
  "not_connected_suffix = [39, 32, 12395, 25509, 32154, 12373, 12428, 12390, 12356, 12414, 12379, 12435]"

definition tool_error_prefix :: pystr where
  "tool_error_prefix = [12484, 12540, 12523, 23455, 34892, 12456, 12521, 12540, 32, 40]"

fun sanitize_item :: "platform \<Rightarrow> content_item \<Rightarrow> content_item" where
  "sanitize_item P (WithText (PStr t)) = WithText (PStr (safe_str P t))"
| "sanitize_item P item = item"

fun sanitize_result :: "platform \<Rightarrow> call_result \<Rightarrow> call_result" where
  "sanitize_result P (CallToolResult items) = CallToolResult (map (sanitize_item P) items)"
| "sanitize_result P (PlainResult s) = PlainResult s"

text \<open>
  \<open>call_tool\<close>. The tool's name comes from a task and may be any value: a list or a
  dict cannot be looked up in a dict (unhashable), and no value but a string is a key of
  the registry. An unknown tool and a server that is not connected raise before any
  remote call; an exception of the remote call is wrapped with the tool's name.
\<close>

definition registry_lookup :: "platform \<Rightarrow> connection_manager \<Rightarrow> pyval \<Rightarrow> exn + tool_info option" where
  "registry_lookup P cm name =
     (case name of
        PList xs \<Rightarrow> Inl (builtin_error P TypeError name)
      | PDict d \<Rightarrow> Inl (builtin_error P TypeError name)
      | PStr s \<Rightarrow> Inr (map_of (tools_info cm) s)
      | _ \<Rightarrow> Inr None)"

definition call_tool ::
  "platform \<Rightarrow> transport \<Rightarrow> connection_manager \<Rightarrow> pyval \<Rightarrow> pyval \<Rightarrow> (exn + call_result) \<times> connection_manager" where
  "call_tool P T cm name arguments =
     (case registry_lookup P cm name of
        Inl e \<Rightarrow> (Inl e, cm)
      | Inr None \<Rightarrow> (Inl (Exn ValueError (unknown_tool_prefix @ str_val P name)), cm)
      | Inr (Some info) \<Rightarrow>
          (let server_name = server info in
           if server_name \<notin> set (clients cm) then
             (Inl (Exn ValueError (server_prefix @ server_name @ not_connected_suffix)), cm)
           else
             (let cm' = cm\<lparr>invocations := invocations cm @ [(server_name, str_val P name, arguments)]\<rparr> in
              case remote_call T (length (invocations cm)) server_name (str_val P name) arguments of
                Inr result \<Rightarrow> (Inr (sanitize_result P result), cm')
              | Inl e \<Rightarrow>
                  (Inl (Exn RuntimeError
                     (tool_error_prefix @ str_val P name @ ascii ''): '' @ safe_str P (str_exn e))), cm'))))"




fun is_substring :: "pystr \<Rightarrow> pystr \<Rightarrow> bool" where
  "is_substring k [] = (k = [])"
| "is_substring k (c # cs) = (take (length k) (c # cs) = k \<or> is_substring k cs)"

definition py_contains :: "platform \<Rightarrow> pystr \<Rightarrow> pyval \<Rightarrow> exn + bool" where
  "py_contains P k container =
     (case container of
        PList xs \<Rightarrow> Inr (PStr k \<in> set xs)
      | PDict d \<Rightarrow> Inr (k \<in> set (map fst d))
      | PStr s \<Rightarrow> Inr (is_substring k s)
      | _ \<Rightarrow> Inl (builtin_error P TypeError container))"

text \<open>Exceptions pass through a sequence of steps; a loop that collects one value per
  element stops at the first element that raises.\<close>

definition bind_exn :: "exn + 'a \<Rightarrow> ('a \<Rightarrow> exn + 'b) \<Rightarrow> exn + 'b" where
  "bind_exn m f = (case m of Inl e \<Rightarrow> Inl e | Inr x \<Rightarrow> f x)"









text \<open>
  \<open>format_tools_for_llm\<close>, the catalogue text of the prompts. The schema and its parts
  are whatever the server sent: \<open>.get\<close> and \<open>.items\<close> raise on a value that is not a
  dict. \<open>AList.clearjunk\<close> gives the entries of a dict, one per key.
\<close>

definition as_dict :: "platform \<Rightarrow> pyval \<Rightarrow> exn + (pystr \<times> pyval) list" where
  "as_dict P v = (case v of PDict d \<Rightarrow> Inr d | _ \<Rightarrow> Inl (builtin_error P AttributeError v))"




section \<open>config_manager.py\<close>

text \<open>
  The configuration classes. A dataclass does not check the type of a field, so a field
  holds whatever value the YAML file gave it.
\<close>

record DisplayConfig =
  ui_mode :: pyval
  show_timing :: pyval
  show_thinking :: pyval

record RetryStrategyConfig =
  max_retries :: pyval
  progressive_temperature :: pyval
  initial_temperature :: pyval
  temperature_increment :: pyval

record ExecutionConfig =
  execution_max_retries :: pyval
  timeout_seconds :: pyval
  fallback_enabled :: pyval
  max_tasks :: pyval
  retry_strategy :: RetryStrategyConfig

record LLMConfig =
  model :: pyval
  temperature :: pyval
  force_json :: pyval
  reasoning_effort :: pyval
  max_completion_tokens :: pyval

record InterruptHandlingConfig =
  timeout :: pyval
  non_interactive_default :: pyval

record ConversationConfig =
  context_limit :: pyval
  max_history :: pyval

record ErrorHandlingConfig =
  auto_correct_params :: pyval
  retry_interval :: pyval

record DevelopmentConfig =
  verbose :: pyval
  log_level :: pyval
  show_api_calls :: pyval

record ResultDisplayConfig =
  max_result_length :: pyval
  show_truncated_info :: pyval

record Config =
  display :: DisplayConfig
  execution :: ExecutionConfig
  llm :: LLMConfig
  conversation :: ConversationConfig
  error_handling :: ErrorHandlingConfig
  development :: DevelopmentConfig
  result_display :: ResultDisplayConfig
  interrupt_handling :: InterruptHandlingConfig

definition default_DisplayConfig :: DisplayConfig where
  "default_DisplayConfig =
     \<lparr>ui_mode = PStr (ascii ''basic''), show_timing = PBool True, show_thinking = PBool True\<rparr>"

definition default_RetryStrategyConfig :: RetryStrategyConfig where
  "default_RetryStrategyConfig =
     \<lparr>max_retries = PInt 3, progressive_temperature = PBool True,
      initial_temperature = PFloat (1 / 10), temperature_increment = PFloat (2 / 10)\<rparr>"

definition default_ExecutionConfig :: ExecutionConfig where
  "default_ExecutionConfig =
     \<lparr>execution_max_retries = PInt 3, timeout_seconds = PInt 30, fallback_enabled = PBool False,
      max_tasks = PInt 10, retry_strategy = default_RetryStrategyConfig\<rparr>"

definition default_LLMConfig :: LLMConfig where
  "default_LLMConfig =
     \<lparr>model = PStr (ascii ''gpt-4o-mini''), temperature = PFloat (2 / 10), force_json = PBool True,
      reasoning_effort = PStr (ascii ''minimal''), max_completion_tokens = PInt 5000\<rparr>"

definition default_InterruptHandlingConfig :: InterruptHandlingConfig where
  "default_InterruptHandlingConfig =
     \<lparr>timeout = PFloat 10, non_interactive_default = PStr (ascii ''abort'')\<rparr>"

definition default_ConversationConfig :: ConversationConfig where
  "default_ConversationConfig = \<lparr>context_limit = PInt 10, max_history = PInt 50\<rparr>"

definition default_ErrorHandlingConfig :: ErrorHandlingConfig where
  "default_ErrorHandlingConfig = \<lparr>auto_correct_params = PBool True, retry_interval = PFloat 1\<rparr>"

definition default_DevelopmentConfig :: DevelopmentConfig where
  "default_DevelopmentConfig =
     \<lparr>verbose = PBool True, log_level = PStr (ascii ''INFO''), show_api_calls = PBool True\<rparr>"

definition default_ResultDisplayConfig :: ResultDisplayConfig where
  "default_ResultDisplayConfig = \<lparr>max_result_length = PInt 1000, show_truncated_info = PBool True\<rparr>"

definition default_Config :: Config where
  "default_Config =
     \<lparr>display = default_DisplayConfig, execution = default_ExecutionConfig, llm = default_LLMConfig,
      conversation = default_ConversationConfig, error_handling = default_ErrorHandlingConfig,
      development = default_DevelopmentConfig, result_display = default_ResultDisplayConfig,
      interrupt_handling = default_InterruptHandlingConfig\<rparr>"

text \<open>
  \<open>_create_config_from_dict\<close>. Each section is read only \<open>if key in data\<close>; then
  \<open>data[key]\<close> must be a dict, since \<open>.get\<close> is called on it. \<open>data\<close> itself is
  whatever the file held: on a string the test is a substring test and on a list a
  membership test, and indexing either with a string raises.
\<close>

definition get_section :: "platform \<Rightarrow> pyval \<Rightarrow> string \<Rightarrow> exn + (pystr \<times> pyval) list option" where
  "get_section P data key =
     bind_exn (py_contains P (ascii key) data) (\<lambda>present.
       if \<not> present then Inr None
       else (case data of
               PDict d \<Rightarrow>
                 (case map_of d (ascii key) of
                    Some v \<Rightarrow> bind_exn (as_dict P v) (\<lambda>sect. Inr (Some sect))
                  | None \<Rightarrow> Inl (builtin_error P KeyError data))
             | _ \<Rightarrow> Inl (builtin_error P TypeError data)))"

definition get_field :: "(pystr \<times> pyval) list \<Rightarrow> string \<Rightarrow> pyval \<Rightarrow> pyval" where
  "get_field d key dflt = dict_get d (ascii key) dflt"

definition make_DisplayConfig :: "(pystr \<times> pyval) list \<Rightarrow> DisplayConfig" where
  "make_DisplayConfig display_data =
     \<lparr>ui_mode = get_field display_data ''ui_mode'' (PStr (ascii ''basic'')),
      show_timing = get_field display_data ''show_timing'' (PBool True),
      show_thinking = get_field display_data ''show_thinking'' (PBool True)\<rparr>"

definition make_RetryStrategyConfig :: "(pystr \<times> pyval) list \<Rightarrow> RetryStrategyConfig" where
  "make_RetryStrategyConfig retry_data =
     \<lparr>max_retries = get_field retry_data ''max_retries'' (PInt 3),
      progressive_temperature = get_field retry_data ''progressive_temperature'' (PBool True),
      initial_temperature = get_field retry_data ''initial_temperature'' (PFloat (1 / 10)),
      temperature_increment = get_field retry_data ''temperature_increment'' (PFloat (2 / 10))\<rparr>"

definition make_ExecutionConfig :: "platform \<Rightarrow> (pystr \<times> pyval) list \<Rightarrow> exn + ExecutionConfig" where
  "make_ExecutionConfig P exec_data =
     bind_exn (as_dict P (get_field exec_data ''retry_strategy'' (PDict []))) (\<lambda>retry_data.
       Inr \<lparr>execution_max_retries = get_field exec_data ''max_retries'' (PInt 3),
            timeout_seconds = get_field exec_data ''timeout_seconds'' (PInt 30),
            fallback_enabled = get_field exec_data ''fallback_enabled'' (PBool False),
            max_tasks = get_field exec_data ''max_tasks'' (PInt 10),
            retry_strategy = make_RetryStrategyConfig retry_data\<rparr>)"

definition make_LLMConfig :: "(pystr \<times> pyval) list \<Rightarrow> LLMConfig" where
  "make_LLMConfig llm_data =
     \<lparr>model = get_field llm_data ''model'' (PStr (ascii ''gpt-4o-mini'')),
      temperature = get_field llm_data ''temperature'' (PFloat (2 / 10)),
      force_json = get_field llm_data ''force_json'' (PBool True),
      reasoning_effort = get_field llm_data ''reasoning_effort'' (PStr (ascii ''minimal'')),
      max_completion_tokens = get_field llm_data ''max_completion_tokens'' (PInt 5000)\<rparr>"

definition make_ConversationConfig :: "(pystr \<times> pyval) list \<Rightarrow> ConversationConfig" where
  "make_ConversationConfig conv_data =
     \<lparr>context_limit = get_field conv_data ''context_limit'' (PInt 10),
      max_history = get_field conv_data ''max_history'' (PInt 50)\<rparr>"

definition make_ErrorHandlingConfig :: "(pystr \<times> pyval) list \<Rightarrow> ErrorHandlingConfig" where
  "make_ErrorHandlingConfig error_data =
     \<lparr>auto_correct_params = get_field error_data ''auto_correct_params'' (PBool True),
      retry_interval = get_field error_data ''retry_interval'' (PFloat 1)\<rparr>"

definition make_DevelopmentConfig :: "(pystr \<times> pyval) list \<Rightarrow> DevelopmentConfig" where
  "make_DevelopmentConfig dev_data =
     \<lparr>verbose = get_field dev_data ''verbose'' (PBool True),
      log_level = get_field dev_data ''log_level'' (PStr (ascii ''INFO'')),
      show_api_calls = get_field dev_data ''show_api_calls'' (PBool True)\<rparr>"

definition make_ResultDisplayConfig :: "(pystr \<times> pyval) list \<Rightarrow> ResultDisplayConfig" where
  "make_ResultDisplayConfig result_data =
     \<lparr>max_result_length = get_field result_data ''max_result_length'' (PInt 1000),
      show_truncated_info = get_field result_data ''show_truncated_info'' (PBool True)\<rparr>"

definition make_InterruptHandlingConfig :: "(pystr \<times> pyval) list \<Rightarrow> InterruptHandlingConfig" where
  "make_InterruptHandlingConfig interrupt_data =
     \<lparr>timeout = get_field interrupt_data ''timeout'' (PFloat 10),
      non_interactive_default = get_field interrupt_data ''non_interactive_default'' (PStr (ascii ''abort''))\<rparr>"

definition or_default :: "'a \<Rightarrow> ((pystr \<times> pyval) list \<Rightarrow> 'a) \<Rightarrow> (pystr \<times> pyval) list option \<Rightarrow> 'a" where
  "or_default dflt mk sect = (case sect of None \<Rightarrow> dflt | Some d \<Rightarrow> mk d)"

definition create_config_from_dict :: "platform \<Rightarrow> pyval \<Rightarrow> exn + Config" where
  "create_config_from_dict P data =
     bind_exn (get_section P data ''display'') (\<lambda>display_data.
     bind_exn (get_section P data ''execution'') (\<lambda>exec_data.
     bind_exn (case exec_data of None \<Rightarrow> Inr default_ExecutionConfig
               | Some d \<Rightarrow> make_ExecutionConfig P d) (\<lambda>exec_config.
     bind_exn (get_section P data ''llm'') (\<lambda>llm_data.
     bind_exn (get_section P data ''conversation'') (\<lambda>conv_data.
     bind_exn (get_section P data ''error_handling'') (\<lambda>error_data.
     bind_exn (get_section P data ''development'') (\<lambda>dev_data.
     bind_exn (get_section P data ''result_display'') (\<lambda>result_data.
     bind_exn (get_section P data ''interrupt_handling'') (\<lambda>interrupt_data.
       Inr \<lparr>display = or_default default_DisplayConfig make_DisplayConfig display_data,
            execution = exec_config,
            llm = or_default default_LLMConfig make_LLMConfig llm_data,
            conversation = or_default default_ConversationConfig make_ConversationConfig conv_data,
            error_handling = or_default default_ErrorHandlingConfig make_ErrorHandlingConfig error_data,
            development = or_default default_DevelopmentConfig make_DevelopmentConfig dev_data,
            result_display = or_default default_ResultDisplayConfig make_ResultDisplayConfig result_data,
            interrupt_handling =
              or_default default_InterruptHandlingConfig make_InterruptHandlingConfig interrupt_data\<rparr>)))))))))"

text \<open>
  The file system and the YAML reader: whether \<open>os.path.exists\<close> holds of a path, and
  what opening the file and \<open>yaml.safe_load\<close> give (\<open>Inl\<close> when either raises).
\<close>

record filesystem =
  path_exists :: "pystr \<Rightarrow> bool"
  read_yaml :: "pystr \<Rightarrow> exn + pyval"

fun truthy :: "pyval \<Rightarrow> bool" where
  "truthy PNone = False"
| "truthy (PBool b) = b"
| "truthy (PInt i) = (i \<noteq> 0)"
| "truthy (PFloat r) = (r \<noteq> 0)"
| "truthy (PStr s) = (s \<noteq> [])"
| "truthy (PList xs) = (xs \<noteq> [])"
| "truthy (PDict d) = (d \<noteq> [])"

definition config_error_prefix :: pystr where
  "config_error_prefix =
     [35373, 23450, 12501, 12449, 12452, 12523, 35501, 12415, 36796, 12415, 12456, 12521, 12540, 58, 32]"

text \<open>
  \<open>ConfigManager.load\<close>: the defaults when the path does not exist; otherwise the file
  is read, and any exception of reading, parsing or building the configuration is raised
  again as a \<open>ValueError\<close> that quotes it.
\<close>

definition load_body :: "platform \<Rightarrow> filesystem \<Rightarrow> pystr \<Rightarrow> exn + Config" where
  "load_body P F config_path =
     bind_exn (read_yaml F config_path) (\<lambda>yaml_data.
       create_config_from_dict P (if truthy yaml_data then yaml_data else PDict []))"

definition load :: "platform \<Rightarrow> filesystem \<Rightarrow> pystr \<Rightarrow> exn + Config" where
  "load P F config_path =
     (if \<not> path_exists F config_path then Inr default_Config
      else (case load_body P F config_path of
              Inr config \<Rightarrow> Inr config
            | Inl e \<Rightarrow> Inl (Exn ValueError (config_error_prefix @ str_exn e))))"

section \<open>llm_interface.py\<close>

text \<open>
  One result of a task, as \<open>_execute_tasks\<close> records it and \<open>interpret_results\<close>
  sends it to the backend.
\<close>

record task_result =
  tool :: pyval
  task_description :: pyval
  result :: pystr
  success :: bool

text \<open>
  A request to the text-completion backend. The prompt is kept as the texts the source
  puts into its template: for classification the catalogue, the recent context and the
  query; for planning the query, the custom instructions, the catalogue and the context;
  for interpretation the query, the custom instructions, the results and the context.
\<close>

datatype prompt =
    ClassifyPrompt pystr pystr pystr
  | PlanPrompt pystr pystr pystr pystr
  | InterpretPrompt pystr pystr "task_result list" pystr

datatype message_role = SystemMessage | UserMessage

record llm_request =
  req_model :: pyval
  req_role :: message_role
  req_prompt :: prompt
  req_temperature :: rat
  req_max_completion_tokens :: pyval
  req_json_object :: bool


record llm_interface =
  llm_config :: Config
  llm_calls :: "llm_request list"




definition NO_TOOL :: pyval where
  "NO_TOOL = PStr (ascii ''NO_TOOL'')"

definition CLARIFICATION :: pyval where
  "CLARIFICATION = PStr (ascii ''CLARIFICATION'')"










section \<open>mcp_agent.py\<close>

text \<open>
  An entry of the conversation history: its role and its content. The content of an
  assistant entry is whatever value the turn returned.
\<close>

datatype role = User | Assistant

record agent =
  config :: Config
  manager :: connection_manager
  interface :: llm_interface
  conversation_history :: "(role \<times> pyval) list"

definition new_agent :: "Config \<Rightarrow> connection_manager \<Rightarrow> agent" where
  "new_agent c cm =
     \<lparr>config = c, manager = cm, interface = \<lparr>llm_config = c, llm_calls = []\<rparr>, conversation_history = []\<rparr>"




















text \<open>\<open>MCPAgent.close\<close>.\<close>

definition close_agent :: "agent \<Rightarrow> agent" where
  "close_agent a = a\<lparr>manager := close (manager a)\<rparr>"


section \<open>A concrete environment\<close>

text \<open>
  Concrete collaborators on which the definitions above can be run. \<open>sample_json_loads\<close>
  is \<open>json.loads\<close> on five documents and raises on every other text.
\<close>

definition quoted :: "string \<Rightarrow> pystr" where
  "quoted s = [34] @ ascii s @ [34]"

definition doc_empty_object :: pystr where
  "doc_empty_object = ascii ''{}''"

definition doc_number_list :: pystr where
  "doc_number_list = ascii ''[1]''"

definition doc_no_tool :: pystr where
  "doc_no_tool =
     ascii ''{'' @ quoted ''type'' @ ascii '': '' @ quoted ''NO_TOOL'' @ ascii '', ''
       @ quoted ''response'' @ ascii '': '' @ quoted ''4'' @ ascii ''}''"

definition doc_clarification :: pystr where
  "doc_clarification =
     ascii ''{'' @ quoted ''type'' @ ascii '': '' @ quoted ''CLARIFICATION'' @ ascii '', ''
       @ quoted ''response'' @ ascii '': '' @ quoted ''Which city?'' @ ascii ''}''"

definition doc_tasks :: pystr where
  "doc_tasks =
     ascii ''[{'' @ quoted ''tool'' @ ascii '': '' @ quoted ''add'' @ ascii '', ''
       @ quoted ''params'' @ ascii '': {}}]''"

definition sample_json_loads :: "pystr \<Rightarrow> pyval option" where
  "sample_json_loads =
     map_of
       [(doc_empty_object, PDict []),
        (doc_number_list, PList [PInt 1]),
        (doc_no_tool, PDict [(ascii ''type'', NO_TOOL), (ascii ''response'', PStr (ascii ''4''))]),
        (doc_clarification,
           PDict [(ascii ''type'', CLARIFICATION), (ascii ''response'', PStr (ascii ''Which city?''))]),
        (doc_tasks, PList [PDict [(ascii ''tool'', PStr (ascii ''add'')), (ascii ''params'', PDict [])]])]"

text \<open>
  A platform other than win32. \<open>py_str\<close> and \<open>error_text\<close> are not the interpreter's:
  they give the type's name and the class's name only.
\<close>

fun sample_py_str :: "pyval \<Rightarrow> pystr" where
  "sample_py_str PNone = ascii ''None''"
| "sample_py_str (PBool b) = ascii ''bool''"
| "sample_py_str (PInt i) = ascii ''int''"
| "sample_py_str (PFloat r) = ascii ''float''"
| "sample_py_str (PStr s) = s"
| "sample_py_str (PList xs) = ascii ''list''"
| "sample_py_str (PDict d) = ascii ''dict''"

fun sample_error_text :: "exn_class \<Rightarrow> pyval \<Rightarrow> pystr" where
  "sample_error_text AttributeError v = ascii ''AttributeError''"
| "sample_error_text TypeError v = ascii ''TypeError''"
| "sample_error_text c v = ascii ''error''"

definition no_codec :: "pystr \<Rightarrow> pystr option" where
  "no_codec t = None"

definition no_fence :: "pystr \<Rightarrow> pystr option" where
  "no_fence t = None"

definition sample_platform :: platform where
  "sample_platform =
     \<lparr>win32 = False, cp932_roundtrip = no_codec, py_str = sample_py_str,
      error_text = sample_error_text, json_loads = sample_json_loads, search_json_fence = no_fence\<rparr>"

text \<open>
  A win32 platform. The codec stands for cp932 with replacement on texts of ASCII
  characters and characters beyond the Basic Multilingual Plane only: cp932 encodes the
  former as themselves and none of the latter.
\<close>

definition ascii_or_replaced :: "pystr \<Rightarrow> pystr option" where
  "ascii_or_replaced t = Some (map (\<lambda>c. if c < 128 then c else question_mark) t)"

definition windows_platform :: platform where
  "windows_platform = sample_platform\<lparr>win32 := True, cp932_roundtrip := ascii_or_replaced\<rparr>"





text \<open>
  Transports with one server \<open>calc\<close> that offers one tool \<open>add\<close>: on the first the
  tool always raises, on the second it answers with the given text.
\<close>

definition always_connect :: "pystr \<Rightarrow> pystr \<Rightarrow> pystr list \<Rightarrow> exn option" where
  "always_connect server_name command args = None"

definition add_tool :: tool_descriptor where
  "add_tool =
     \<lparr>tool_name = ascii ''add'', inputSchema = Some (PDict []),
      tool_description = Some (PStr (ascii ''Add two numbers''))\<rparr>"

definition calc_tools :: "pystr \<Rightarrow> exn + tool_descriptor list" where
  "calc_tools server_name = Inr [add_tool]"

definition always_raise :: "nat \<Rightarrow> pystr \<Rightarrow> pystr \<Rightarrow> pyval \<Rightarrow> exn + call_result" where
  "always_raise n server_name name arguments = Inl (Exn OtherError (ascii ''boom''))"

definition answer :: "pystr \<Rightarrow> nat \<Rightarrow> pystr \<Rightarrow> pystr \<Rightarrow> pyval \<Rightarrow> exn + call_result" where
  "answer text n server_name name arguments = Inr (CallToolResult [WithText (PStr text)])"

definition failing_transport :: transport where
  "failing_transport = \<lparr>connect = always_connect, list_tools = calc_tools, remote_call = always_raise\<rparr>"

definition answering_transport :: "pystr \<Rightarrow> transport" where
  "answering_transport text =
     \<lparr>connect = always_connect, list_tools = calc_tools, remote_call = answer text\<rparr>"

definition calc_servers :: "(pystr \<times> pystr list) list" where
  "calc_servers = [(ascii ''calc'', [ascii ''python'', ascii ''calc.py''])]"

definition calc_manager :: connection_manager where
  "calc_manager = initialize failing_transport (new_connection_manager calc_servers)"

text \<open>A file system without files.\<close>

definition no_path :: "pystr \<Rightarrow> bool" where
  "no_path p = False"

definition no_file :: "pystr \<Rightarrow> exn + pyval" where
  "no_file p = Inl (Exn OtherError (ascii ''No such file or directory''))"

definition empty_filesystem :: filesystem where
  "empty_filesystem = \<lparr>path_exists = no_path, read_yaml = no_file\<rparr>"

text \<open>A file system where every path exists and no file can be read.\<close>

definition any_path :: "pystr \<Rightarrow> bool" where
  "any_path p = True"

definition denied :: "pystr \<Rightarrow> exn + pyval" where
  "denied p = Inl (Exn OtherError (ascii ''Permission denied''))"

definition unreadable_filesystem :: filesystem where
  "unreadable_filesystem = \<lparr>path_exists = any_path, read_yaml = denied\<rparr>"


text \<open>An agent with the default configuration and no server.\<close>

definition bare_agent :: agent where
  "bare_agent = new_agent default_Config (new_connection_manager [])"


text \<open>
  File systems in which every path exists: one whose file is empty, so that
  \<open>yaml.safe_load\<close> gives \<open>None\<close>; one whose file is the line \<open>display:\<close>, which
  parses to a mapping with the one key \<open>display\<close> and the value \<open>None\<close>; and one
  whose file sets \<open>max_history\<close> to 5 in a \<open>conversation\<close> section.
\<close>

definition blank_file :: "pystr \<Rightarrow> exn + pyval" where
  "blank_file p = Inr PNone"

definition blank_filesystem :: filesystem where
  "blank_filesystem = \<lparr>path_exists = any_path, read_yaml = blank_file\<rparr>"

definition null_display_file :: "pystr \<Rightarrow> exn + pyval" where
  "null_display_file p = Inr (PDict [(ascii ''display'', PNone)])"

definition null_display_filesystem :: filesystem where
  "null_display_filesystem = \<lparr>path_exists = any_path, read_yaml = null_display_file\<rparr>"

definition short_history_file :: "pystr \<Rightarrow> exn + pyval" where
  "short_history_file p = Inr (PDict [(ascii ''conversation'', PDict [(ascii ''max_history'', PInt 5)])])"

definition short_history_filesystem :: filesystem where
  "short_history_filesystem = \<lparr>path_exists = any_path, read_yaml = short_history_file\<rparr>"

section \<open>Shapes of inputs\<close>

text \<open>
  A parsed configuration file whose sections are mappings: each of the eight sections is
  absent or a dict, and so is \<open>retry_strategy\<close> inside an \<open>execution\<close> section.
\<close>

fun is_dict :: "pyval \<Rightarrow> bool" where
  "is_dict (PDict d) = True"
| "is_dict v = False"

definition mapping_or_absent :: "(pystr \<times> pyval) list \<Rightarrow> string \<Rightarrow> bool" where
  "mapping_or_absent d key = (case map_of d (ascii key) of None \<Rightarrow> True | Some v \<Rightarrow> is_dict v)"

definition section_names :: "string list" where
  "section_names =
     [''display'', ''execution'', ''llm'', ''conversation'', ''error_handling'', ''development'',
      ''result_display'', ''interrupt_handling'']"

definition sections_are_mappings :: "(pystr \<times> pyval) list \<Rightarrow> bool" where
  "sections_are_mappings d \<longleftrightarrow>
     list_all (mapping_or_absent d) section_names
     \<and> (case map_of d (ascii ''execution'') of
          Some (PDict e) \<Rightarrow> mapping_or_absent e ''retry_strategy''
        | _ \<Rightarrow> True)"






section \<open>Evaluation lemmas\<close>

lemma ascii_eq_iff [simp]: "ascii s = ascii t \<longleftrightarrow> s = t"
  by (simp add: ascii_def inj_map_eq_map inj_of_char)

lemma calc_manager_eq:
  "calc_manager =
     \<lparr>servers = calc_servers, clients = [ascii ''calc''],
      tools_info = [(ascii ''add'', \<lparr>server = ascii ''calc'', schema = PDict [],
                      description = PStr (ascii ''Add two numbers'')\<rparr>)],
      initialized = True, invocations = []\<rparr>"
  by (simp add: calc_manager_def initialize_def new_connection_manager_def calc_servers_def
      connect_all_servers_def collect_tools_info_def failing_transport_def always_connect_def
      calc_tools_def add_key_def add_tool_def make_tool_info_def)

section \<open>Sanitised tool output\<close>

lemma replace_surrogates_length: "length (replace_surrogates t) = length t"
  by (simp add: replace_surrogates_def)

lemma replace_surrogates_nth:
  "j < length t \<Longrightarrow> replace_surrogates t ! j = (if is_surrogate (t ! j) then question_mark else t ! j)"
  by (simp add: replace_surrogates_def)

lemma question_mark_not_surrogate: "\<not> is_surrogate question_mark"
  by (simp add: is_surrogate_def question_mark_def)

lemma replace_surrogates_clean: "c \<in> set (replace_surrogates t) \<Longrightarrow> \<not> is_surrogate c"
  by (auto simp: replace_surrogates_def question_mark_not_surrogate)

lemma safe_str_posix: "\<not> win32 P \<Longrightarrow> safe_str P t = replace_surrogates t"
  by (simp add: safe_str_def)

lemma call_tool_result:
  assumes "call_tool P T cm name arguments = (Inr r, cm')"
  shows "\<exists>srv raw. remote_call T (length (invocations cm)) srv (str_val P name) arguments = Inr raw
           \<and> r = sanitize_result P raw"
  using assms
  by (auto simp: call_tool_def Let_def split: sum.splits option.splits if_splits)

lemma safe_str_clean:
  assumes "\<forall>t t'. win32 P \<and> cp932_roundtrip P t = Some t' \<longrightarrow> (\<forall>c \<in> set t'. \<not> is_surrogate c)"
  shows "\<forall>c \<in> set (safe_str P t). \<not> is_surrogate c"
proof (cases "win32 P \<and> cp932_roundtrip P t \<noteq> None")
  case True
  then obtain t' where t': "cp932_roundtrip P t = Some t'" and w: "win32 P" by auto
  with assms have "\<forall>c \<in> set t'. \<not> is_surrogate c" by blast
  with t' w show ?thesis by (simp add: safe_str_def)
next
  case False
  then have "safe_str P t = replace_surrogates t" by (auto simp: safe_str_def)
  then show ?thesis by (auto dest: replace_surrogates_clean)
qed

lemma sample_codec_clean:
  "\<forall>t t'. win32 sample_platform \<and> cp932_roundtrip sample_platform t = Some t' \<longrightarrow> (\<forall>c \<in> set t'. \<not> is_surrogate c)"
  by (simp add: sample_platform_def)

lemma windows_codec_clean:
  "\<forall>t t'. win32 windows_platform \<and> cp932_roundtrip windows_platform t = Some t' \<longrightarrow> (\<forall>c \<in> set t'. \<not> is_surrogate c)"
  by (auto simp: windows_platform_def sample_platform_def ascii_or_replaced_def is_surrogate_def question_mark_def)

lemma call_add_sample:
  "call_tool sample_platform (answering_transport [97, 0xD800, 98]) calc_manager (PStr (ascii ''add'')) (PDict [])
     = (Inr (CallToolResult [WithText (PStr [97, 63, 98])]),
        calc_manager\<lparr>invocations := [(ascii ''calc'', ascii ''add'', PDict [])]\<rparr>)"
  by (simp add: call_tool_def Let_def registry_lookup_def calc_manager_eq str_val_def answering_transport_def
        answer_def sample_platform_def safe_str_def replace_surrogates_def is_surrogate_def question_mark_def)

lemma call_add_windows:
  "call_tool windows_platform (answering_transport [97, 0xD800, 98]) calc_manager (PStr (ascii ''add'')) (PDict [])
     = (Inr (CallToolResult [WithText (PStr [97, 63, 98])]),
        calc_manager\<lparr>invocations := [(ascii ''calc'', ascii ''add'', PDict [])]\<rparr>)"
  by (simp add: call_tool_def Let_def registry_lookup_def calc_manager_eq str_val_def answering_transport_def
        answer_def windows_platform_def sample_platform_def safe_str_def ascii_or_replaced_def question_mark_def)

text \<open>
  Claim C9, as amended. Take any platform whose cp932 round trip, where win32 uses it,
  gives a text without surrogates (as decoding cp932 does). Then every text item of a
  result that \<open>call_tool\<close> returns holds no surrogate (U+D800 to U+DFFF), and it comes
  from the text the server sent at the same position as follows. On a platform other than
  win32, and on win32 when the round trip raises, each surrogate is replaced by \<open>?\<close> and
  every other character is unchanged, so the length is the same. On win32 otherwise the
  text is the cp932 round trip with replacement of the server's text, which may replace
  other characters too.
\<close>

theorem call_tool_no_surrogate:
  assumes "\<forall>t t'. win32 P \<and> cp932_roundtrip P t = Some t' \<longrightarrow> (\<forall>c \<in> set t'. \<not> is_surrogate c)"
    and "call_tool P T cm name arguments = (Inr (CallToolResult items), cm')"
    and "i < length items"
    and "items ! i = WithText (PStr out)"
  shows "(\<forall>c \<in> set out. \<not> is_surrogate c)
         \<and> (\<exists>srv raw inp.
               remote_call T (length (invocations cm)) srv (str_val P name) arguments = Inr (CallToolResult raw)
               \<and> length raw = length items \<and> raw ! i = WithText (PStr inp)
               \<and> (\<not> win32 P \<or> cp932_roundtrip P inp = None \<longrightarrow>
                     length out = length inp
                     \<and> (\<forall>j < length inp. out ! j = (if is_surrogate (inp ! j) then question_mark else inp ! j)))
               \<and> (win32 P \<longrightarrow> (\<forall>t. cp932_roundtrip P inp = Some t \<longrightarrow> out = t)))"
proof -
  from call_tool_result [OF assms(2)] obtain srv r where
    rc: "remote_call T (length (invocations cm)) srv (str_val P name) arguments = Inr r"
    and san: "CallToolResult items = sanitize_result P r"
    by blast
  from san obtain raw where r: "r = CallToolResult raw" and items: "items = map (sanitize_item P) raw"
    by (cases r) auto
  from items assms(3) have i: "i < length raw" by simp
  with items assms(4) have "sanitize_item P (raw ! i) = WithText (PStr out)" by simp
  then obtain inp where inp: "raw ! i = WithText (PStr inp)" and out: "out = safe_str P inp"
    by (cases "(P, raw ! i)" rule: sanitize_item.cases) auto
  from out safe_str_clean [OF assms(1), of inp] have clean: "\<forall>c \<in> set out. \<not> is_surrogate c"
    by simp
  have generic: "\<not> win32 P \<or> cp932_roundtrip P inp = None \<longrightarrow>
                     length out = length inp
                     \<and> (\<forall>j < length inp. out ! j = (if is_surrogate (inp ! j) then question_mark else inp ! j))"
    using out by (auto simp: safe_str_def replace_surrogates_length replace_surrogates_nth)
  have codec: "win32 P \<longrightarrow> (\<forall>t. cp932_roundtrip P inp = Some t \<longrightarrow> out = t)"
    using out by (simp add: safe_str_def)
  have len: "length raw = length items" using items by simp
  from rc r have rc': "remote_call T (length (invocations cm)) srv (str_val P name) arguments = Inr (CallToolResult raw)"
    by simp
  from rc' len inp generic codec
  have "\<exists>srv raw inp.
               remote_call T (length (invocations cm)) srv (str_val P name) arguments = Inr (CallToolResult raw)
               \<and> length raw = length items \<and> raw ! i = WithText (PStr inp)
               \<and> (\<not> win32 P \<or> cp932_roundtrip P inp = None \<longrightarrow>
                     length out = length inp
                     \<and> (\<forall>j < length inp. out ! j = (if is_surrogate (inp ! j) then question_mark else inp ! j)))
               \<and> (win32 P \<longrightarrow> (\<forall>t. cp932_roundtrip P inp = Some t \<longrightarrow> out = t))"
    by (intro exI conjI)
  with clean show ?thesis by (rule conjI)
qed

text \<open>The server answers \<open>add\<close> with the text \<open>a\<close>, U+D800, \<open>b\<close>; on the win32
  platform and on the other one the caller gets \<open>a?b\<close>.\<close>

theorem call_tool_no_surrogate_witness:
  "call_tool windows_platform (answering_transport [97, 0xD800, 98]) calc_manager (PStr (ascii ''add'')) (PDict [])
     = (Inr (CallToolResult [WithText (PStr [97, 63, 98])]),
        calc_manager\<lparr>invocations := [(ascii ''calc'', ascii ''add'', PDict [])]\<rparr>)
   \<and> call_tool sample_platform (answering_transport [97, 0xD800, 98]) calc_manager (PStr (ascii ''add'')) (PDict [])
       = (Inr (CallToolResult [WithText (PStr [97, 63, 98])]),
          calc_manager\<lparr>invocations := [(ascii ''calc'', ascii ''add'', PDict [])]\<rparr>)
   \<and> \<not> is_surrogate 97 \<and> \<not> is_surrogate 63 \<and> \<not> is_surrogate 98"
proof -
  have i: "0 < length [WithText (PStr [97, 63, 98])]" by simp
  have item: "[WithText (PStr [97, 63, 98])] ! 0 = WithText (PStr [97, 63, 98])" by simp
  note on_windows = call_tool_no_surrogate [OF windows_codec_clean call_add_windows i item]
  note on_sample = call_tool_no_surrogate [OF sample_codec_clean call_add_sample i item]
  from on_windows have "\<forall>c \<in> set [97, 63, 98 :: nat]. \<not> is_surrogate c" by (rule conjunct1)
  then have clean: "\<not> is_surrogate 97 \<and> \<not> is_surrogate 63 \<and> \<not> is_surrogate 98" by simp
  from on_sample have "\<forall>c \<in> set [97, 63, 98 :: nat]. \<not> is_surrogate c" by (rule conjunct1)
  then have "\<not> is_surrogate 97 \<and> \<not> is_surrogate 63 \<and> \<not> is_surrogate 98" by simp
  with call_add_windows call_add_sample clean show ?thesis by simp
qed

text \<open>
  Claim C9 as stated fails on win32: the server answers with the single character
  U+1F600, which is no surrogate, and the caller gets \<open>?\<close>.
\<close>

theorem call_tool_win32_counterexample:
  "call_tool windows_platform (answering_transport [0x1F600]) calc_manager (PStr (ascii ''add'')) (PDict [])
     = (Inr (CallToolResult [WithText (PStr [question_mark])]),
        calc_manager\<lparr>invocations := [(ascii ''calc'', ascii ''add'', PDict [])]\<rparr>)
   \<and> \<not> is_surrogate 0x1F600 \<and> question_mark \<noteq> 0x1F600"
  by (simp add: call_tool_def Let_def registry_lookup_def calc_manager_eq str_val_def answering_transport_def
      answer_def windows_platform_def sample_platform_def safe_str_def ascii_or_replaced_def
      is_surrogate_def question_mark_def)

section \<open>Loading the configuration\<close>

lemma key_in_dict: "k \<in> fst ` set d \<longleftrightarrow> map_of d k \<noteq> None"
  by (simp add: map_of_eq_None_iff)

lemma get_section_dict:
  "get_section P (PDict d) key =
     (case map_of d (ascii key) of
        None \<Rightarrow> Inr None
      | Some v \<Rightarrow> (case v of PDict s \<Rightarrow> Inr (Some s) | _ \<Rightarrow> Inl (builtin_error P AttributeError v)))"
  by (auto simp: get_section_def py_contains_def bind_exn_def as_dict_def key_in_dict
      split: option.splits pyval.splits)

lemma get_section_ok:
  "mapping_or_absent d key \<Longrightarrow> \<exists>s. get_section P (PDict d) key = Inr s"
  by (cases "map_of d (ascii key)")
     (auto simp: get_section_dict mapping_or_absent_def split: pyval.splits)

lemma execution_ok:
  assumes "sections_are_mappings d"
  shows "\<exists>s c. get_section P (PDict d) ''execution'' = Inr s
           \<and> (case s of None \<Rightarrow> Inr default_ExecutionConfig | Some e \<Rightarrow> make_ExecutionConfig P e) = Inr c"
proof (cases "map_of d (ascii ''execution'')")
  case None
  then show ?thesis by (simp add: get_section_dict)
next
  case (Some v)
  from assms have "mapping_or_absent d ''execution''"
    by (simp add: sections_are_mappings_def section_names_def)
  with Some obtain e where v: "v = PDict e" by (cases v) (auto simp: mapping_or_absent_def)
  with assms Some have "mapping_or_absent e ''retry_strategy''"
    by (simp add: sections_are_mappings_def)
  then have "\<exists>c. make_ExecutionConfig P e = Inr c"
    by (cases "map_of e (ascii ''retry_strategy'')")
       (auto simp: make_ExecutionConfig_def get_field_def dict_get_def as_dict_def bind_exn_def
          mapping_or_absent_def split: pyval.splits)
  with Some v show ?thesis by (simp add: get_section_dict)
qed

lemma create_config_ok:
  assumes "sections_are_mappings d"
  shows "\<exists>c. create_config_from_dict P (PDict d) = Inr c"
proof -
  from assms have m: "mapping_or_absent d ''display''" "mapping_or_absent d ''llm''"
    "mapping_or_absent d ''conversation''" "mapping_or_absent d ''error_handling''"
    "mapping_or_absent d ''development''" "mapping_or_absent d ''result_display''"
    "mapping_or_absent d ''interrupt_handling''"
    by (simp_all add: sections_are_mappings_def section_names_def)
  from m(1) obtain s1 where s1: "get_section P (PDict d) ''display'' = Inr s1"
    using get_section_ok by blast
  from m(2) obtain s2 where s2: "get_section P (PDict d) ''llm'' = Inr s2"
    using get_section_ok by blast
  from m(3) obtain s3 where s3: "get_section P (PDict d) ''conversation'' = Inr s3"
    using get_section_ok by blast
  from m(4) obtain s4 where s4: "get_section P (PDict d) ''error_handling'' = Inr s4"
    using get_section_ok by blast
  from m(5) obtain s5 where s5: "get_section P (PDict d) ''development'' = Inr s5"
    using get_section_ok by blast
  from m(6) obtain s6 where s6: "get_section P (PDict d) ''result_display'' = Inr s6"
    using get_section_ok by blast
  from m(7) obtain s7 where s7: "get_section P (PDict d) ''interrupt_handling'' = Inr s7"
    using get_section_ok by blast
  from execution_ok [OF assms] obtain se ce where
    se: "get_section P (PDict d) ''execution'' = Inr se"
    and ce: "(case se of None \<Rightarrow> Inr default_ExecutionConfig | Some e \<Rightarrow> make_ExecutionConfig P e) = Inr ce"
    by blast
  show ?thesis
    by (simp add: create_config_from_dict_def bind_exn_def s1 s2 s3 s4 s5 s6 s7 se ce)
qed

lemma create_config_empty: "create_config_from_dict P (PDict []) = Inr default_Config"
  by (simp add: create_config_from_dict_def get_section_dict bind_exn_def or_default_def default_Config_def)

text \<open>
  Claim C10, as amended. For every path of which \<open>os.path.exists\<close> is false, \<open>load\<close>
  returns the default configuration and raises nothing. When the path exists and the file
  is read, \<open>load\<close> raises nothing either if the file parses to a false value (an empty
  file), which gives the defaults, or to a mapping whose sections are mappings. Whenever
  \<open>load\<close> raises, the path exists and the exception is a \<open>ValueError\<close> that quotes its
  cause: either reading or parsing the file raised, or the file was read and parsed to a
  true value that is no mapping whose sections are mappings, and
  \<open>_create_config_from_dict\<close> raised on it.
\<close>

theorem load_raises_only:
  "(\<not> path_exists F p \<longrightarrow> load P F p = Inr default_Config)
   \<and> (\<forall>y. path_exists F p \<and> read_yaml F p = Inr y \<and> \<not> truthy y \<longrightarrow> load P F p = Inr default_Config)
   \<and> (\<forall>d. path_exists F p \<and> read_yaml F p = Inr (PDict d) \<and> sections_are_mappings d
          \<longrightarrow> (\<exists>c. load P F p = Inr c))
   \<and> (\<forall>e. load P F p = Inl e \<longrightarrow>
          path_exists F p
          \<and> (\<exists>cause. e = Exn ValueError (config_error_prefix @ str_exn cause)
                \<and> (read_yaml F p = Inl cause
                    \<or> (\<exists>y. read_yaml F p = Inr y \<and> truthy y
                           \<and> (\<forall>d. y = PDict d \<longrightarrow> \<not> sections_are_mappings d)
                           \<and> create_config_from_dict P y = Inl cause))))"
proof (intro conjI allI impI)
  assume "\<not> path_exists F p"
  then show "load P F p = Inr default_Config" by (simp add: load_def)
next
  fix y assume "path_exists F p \<and> read_yaml F p = Inr y \<and> \<not> truthy y"
  then show "load P F p = Inr default_Config"
    by (simp add: load_def load_body_def bind_exn_def create_config_empty)
next
  fix d assume a: "path_exists F p \<and> read_yaml F p = Inr (PDict d) \<and> sections_are_mappings d"
  then obtain c where c: "create_config_from_dict P (PDict d) = Inr c"
    using create_config_ok by blast
  show "\<exists>c. load P F p = Inr c"
  proof (cases "d = []")
    case True
    with a show ?thesis by (simp add: load_def load_body_def bind_exn_def create_config_empty)
  next
    case False
    with a c show ?thesis by (simp add: load_def load_body_def bind_exn_def)
  qed
next
  fix e assume r: "load P F p = Inl e"
  then show "path_exists F p" by (auto simp: load_def split: if_splits)
  from r have ex: "path_exists F p" by (auto simp: load_def split: if_splits)
  with r obtain cause where body: "load_body P F p = Inl cause"
    and e: "e = Exn ValueError (config_error_prefix @ str_exn cause)"
    by (auto simp: load_def split: sum.splits)
  show "\<exists>cause. e = Exn ValueError (config_error_prefix @ str_exn cause)
                \<and> (read_yaml F p = Inl cause
                    \<or> (\<exists>y. read_yaml F p = Inr y \<and> truthy y
                           \<and> (\<forall>d. y = PDict d \<longrightarrow> \<not> sections_are_mappings d)
                           \<and> create_config_from_dict P y = Inl cause))"
  proof (cases "read_yaml F p")
    case (Inl c)
    with body e show ?thesis by (auto simp: load_body_def bind_exn_def)
  next
    case (Inr y)
    show ?thesis
    proof (cases "truthy y")
      case False
      with Inr body show ?thesis by (simp add: load_body_def bind_exn_def create_config_empty)
    next
      case True
      with Inr body have c: "create_config_from_dict P y = Inl cause"
        by (simp add: load_body_def bind_exn_def)
      have "\<forall>d. y = PDict d \<longrightarrow> \<not> sections_are_mappings d"
      proof (intro allI impI notI)
        fix d assume "y = PDict d" and "sections_are_mappings d"
        with c create_config_ok [of d P] show False by auto
      qed
      with Inr True c e show ?thesis by blast
    qed
  qed
qed

text \<open>No file: the defaults. An empty file: the defaults. A file with a
  \<open>conversation\<close> section: a configuration. A file that cannot be read: the error, and
  the path exists.\<close>

theorem load_raises_only_witness:
  "\<not> path_exists empty_filesystem (ascii ''config.yaml'')
   \<and> load sample_platform empty_filesystem (ascii ''config.yaml'') = Inr default_Config
   \<and> path_exists blank_filesystem (ascii ''config.yaml'')
   \<and> read_yaml blank_filesystem (ascii ''config.yaml'') = Inr PNone \<and> \<not> truthy PNone
   \<and> load sample_platform blank_filesystem (ascii ''config.yaml'') = Inr default_Config
   \<and> read_yaml short_history_filesystem (ascii ''config.yaml'')
       = Inr (PDict [(ascii ''conversation'', PDict [(ascii ''max_history'', PInt 5)])])
   \<and> sections_are_mappings [(ascii ''conversation'', PDict [(ascii ''max_history'', PInt 5)])]
   \<and> (\<exists>c. load sample_platform short_history_filesystem (ascii ''config.yaml'') = Inr c)
   \<and> load sample_platform unreadable_filesystem (ascii ''config.yaml'')
       = Inl (Exn ValueError (config_error_prefix @ ascii ''Permission denied''))
   \<and> path_exists unreadable_filesystem (ascii ''config.yaml'')"
proof -
  let ?p = "ascii ''config.yaml''"
  let ?d = "[(ascii ''conversation'', PDict [(ascii ''max_history'', PInt 5)])]"
  have absent: "\<not> path_exists empty_filesystem ?p"
    by (simp add: empty_filesystem_def no_path_def)
  have blank: "path_exists blank_filesystem ?p \<and> read_yaml blank_filesystem ?p = Inr PNone \<and> \<not> truthy PNone"
    by (simp add: blank_filesystem_def any_path_def blank_file_def)
  have shape: "sections_are_mappings ?d"
    by (simp add: sections_are_mappings_def section_names_def mapping_or_absent_def)
  have short: "path_exists short_history_filesystem ?p \<and> read_yaml short_history_filesystem ?p = Inr (PDict ?d)
                 \<and> sections_are_mappings ?d"
    using shape by (simp add: short_history_filesystem_def any_path_def short_history_file_def)
  have raised: "load sample_platform unreadable_filesystem ?p
       = Inl (Exn ValueError (config_error_prefix @ ascii ''Permission denied''))"
    by (simp add: load_def load_body_def bind_exn_def unreadable_filesystem_def any_path_def denied_def)
  note at_empty = load_raises_only [of empty_filesystem ?p sample_platform]
  note at_blank = load_raises_only [of blank_filesystem ?p sample_platform]
  note at_short = load_raises_only [of short_history_filesystem ?p sample_platform]
  note at_unreadable = load_raises_only [of unreadable_filesystem ?p sample_platform]
  from at_empty absent have r1: "load sample_platform empty_filesystem ?p = Inr default_Config"
    by blast
  from at_blank blank have r2: "load sample_platform blank_filesystem ?p = Inr default_Config"
    by blast
  from at_short short have r3: "\<exists>c. load sample_platform short_history_filesystem ?p = Inr c"
    by blast
  from at_unreadable raised have r4: "path_exists unreadable_filesystem ?p"
    by blast
  from absent r1 blank r2 short r3 raised r4 show ?thesis by simp
qed

text \<open>
  Claim C10 as stated fails on a file that is read and parsed: the file \<open>display:\<close>
  parses to a mapping whose \<open>display\<close> is \<open>None\<close>, \<open>.get\<close> on it raises, and
  \<open>load\<close> raises the \<open>ValueError\<close>.
\<close>

theorem load_parsed_file_counterexample:
  "path_exists null_display_filesystem (ascii ''config.yaml'')
   \<and> read_yaml null_display_filesystem (ascii ''config.yaml'') = Inr (PDict [(ascii ''display'', PNone)])
   \<and> load sample_platform null_display_filesystem (ascii ''config.yaml'')
       = Inl (Exn ValueError (config_error_prefix @ ascii ''AttributeError''))"
  by (simp add: null_display_filesystem_def any_path_def null_display_file_def load_def load_body_def
      bind_exn_def create_config_from_dict_def get_section_dict builtin_error_def sample_platform_def)

section \<open>Classification\<close>









section \<open>Evaluating a turn\<close>









lemma bare_interface: "interface bare_agent = \<lparr>llm_config = default_Config, llm_calls = []\<rparr>"
  by (simp add: bare_agent_def new_agent_def)





section \<open>Turns that need no tool\<close>




section \<open>An empty plan\<close>



section \<open>A task that is no object\<close>


section \<open>The context of a turn\<close>









section \<open>The conversation history\<close>









section \<open>The registry and the connections\<close>









section \<open>Tasks whose tool fails\<close>



















end
